theory Spec2Isabelle
  imports Complex_Main
begin

section \<open>Exceptions and strings\<close>

text \<open>
  Every \<^verbatim>\<open>raise\<close> of the Python source is a value: a function that may raise
  returns \<open>exn + 'a\<close>, with \<open>Inl\<close> the exception. Only subclasses of
  \<^verbatim>\<open>Exception\<close> are modelled (the handlers of the source are all
  \<^verbatim>\<open>except Exception\<close>). The one class the source tells apart is
  \<^verbatim>\<open>OutputParserException\<close> (the retry of the entity extraction);
  \<^verbatim>\<open>AttributeError\<close> is what reading a field of \<^verbatim>\<open>None\<close> raises.
  \<open>str\<close> is the message, as \<^verbatim>\<open>str(e)\<close> gives it.
\<close>

datatype exn_kind = OutputParserException | AttributeError | OtherException

datatype exn = Exn (kind: exn_kind) (str: string)

text \<open>Python strings outside ASCII are written as their UTF-8 bytes.\<close>

definition utf8 :: "nat list \<Rightarrow> string" where
  "utf8 bs = map char_of bs"

text \<open>Reading attribute \<open>a\<close> of \<^verbatim>\<open>None\<close>.\<close>

definition squote :: "string \<Rightarrow> string" where
  "squote s = CHR 0x27 # s @ [CHR 0x27]"

definition none_has_no_attribute :: "string \<Rightarrow> exn" where
  "none_has_no_attribute a =
     Exn AttributeError (squote ''NoneType'' @ '' object has no attribute '' @ squote a)"

text \<open>\<^verbatim>\<open>x.a\<close> where \<open>x\<close> may be \<^verbatim>\<open>None\<close>.\<close>

definition attr :: "'a option \<Rightarrow> ('a \<Rightarrow> 'b) \<Rightarrow> string \<Rightarrow> exn + 'b" where
  "attr x f a = (case x of None \<Rightarrow> Inl (none_has_no_attribute a) | Some v \<Rightarrow> Inr (f v))"

text \<open>\<^verbatim>\<open>sep.join(parts)\<close>.\<close>

fun str_join :: "string \<Rightarrow> string list \<Rightarrow> string" where
  "str_join sep [] = []"
| "str_join sep [p] = p"
| "str_join sep (p # q # ps) = p @ sep @ str_join sep (q # ps)"

text \<open>\<^verbatim>\<open>s.split(c)\<close> for a one-character separator: never an empty list.\<close>

fun str_split :: "char \<Rightarrow> string \<Rightarrow> string list" where
  "str_split c [] = [[]]"
| "str_split c (x # xs) =
     (if x = c then [] # str_split c xs
      else (case str_split c xs of
              w # ws \<Rightarrow> (x # w) # ws
            | [] \<Rightarrow> [[x]]))"

text \<open>
  \<^verbatim>\<open>xs[:k]\<close>: the first \<open>k\<close> elements, and for a negative \<open>k\<close> all but the last
  \<open>-k\<close>.
\<close>

definition slice_to :: "int \<Rightarrow> 'a list \<Rightarrow> 'a list" where
  "slice_to k xs =
     (if k < 0 then take (nat (int (length xs) + k)) xs else take (nat k) xs)"

section \<open>Data model (recipe\_types.py)\<close>

type_synonym bytes = string

text \<open>\<^verbatim>\<open>langchain_core.documents.Document\<close>: only its text is read by the source.\<close>

record document =
  page_content :: string

record 'f ingredient =
  ingredient_name :: string
  ingredient_unit :: string
  ingredient_quantity :: 'f

record 'f recipe_entity =
  recipe_name :: string
  ingredients :: "'f ingredient list"

record pdf_validation_result =
  is_recipe :: bool
  reason :: string

record pdf_content =
  pdf_bytes :: bytes
  extracted_text :: string

record document_chunks =
  original_text :: string
  text_segments :: "document list"

record 'f chunk_embedding =
  chunk_text :: string
  vector_embedding :: "'f list"

definition from_embedding :: "string \<Rightarrow> 'f list \<Rightarrow> 'f chunk_embedding" where
  "from_embedding text embedding = \<lparr>chunk_text = text, vector_embedding = embedding\<rparr>"

record 'f embedded_chunks =
  ec_text_segments :: "document list"
  chunk_embeddings :: "'f chunk_embedding list"

record 'f recipe_extraction_result =
  res_extracted_recipe :: "'f recipe_entity option"
  res_total_cooking_minutes :: "'f option"

text \<open>\<^verbatim>\<open>RecipeExtractionResult(a, b)\<close>, positional.\<close>

definition RecipeExtractionResult ::
  "'f recipe_entity option \<Rightarrow> 'f option \<Rightarrow> 'f recipe_extraction_result" where
  "RecipeExtractionResult r m = \<lparr>res_extracted_recipe = r, res_total_cooking_minutes = m\<rparr>"

section \<open>Workflow state (main.py, WorkflowState)\<close>

text \<open>
  The \<^verbatim>\<open>TypedDict\<close> has every key in every state of a run (the initial state sets
  all ten and every node returns \<^verbatim>\<open>{**state, key: value}\<close>), so the state is a
  record; an \<^verbatim>\<open>Optional\<close> field is an \<open>option\<close>. The type \<open>'f\<close> stands for
  Python's \<^verbatim>\<open>float\<close>: no law of arithmetic is assumed of it.
\<close>

record 'f workflow_state =
  pdf_url :: string
  validation_result :: "pdf_validation_result option"
  pdf_content :: "pdf_content option"
  document_chunks :: "document_chunks option"
  embedded_chunks :: "'f embedded_chunks option"
  recipe_relevant_segments :: "document list option"
  extracted_recipe :: "'f recipe_entity option"
  total_cooking_minutes :: "'f option"
  final_result :: "'f recipe_extraction_result option"
  error :: "string option"

section \<open>The conditional branch\<close>

text \<open>
  \<^verbatim>\<open>_should_continue_processing\<close>:
  \<^verbatim>\<open>if validation_result and validation_result.is_recipe\<close>. A
  \<^verbatim>\<open>PdfValidationResult\<close> object is truthy, \<^verbatim>\<open>None\<close> is falsy.
\<close>

definition should_continue_processing :: "'f workflow_state \<Rightarrow> string" where
  "should_continue_processing state =
     (case validation_result state of
        None \<Rightarrow> ''stop''
      | Some vr \<Rightarrow> if is_recipe vr then ''continue'' else ''stop'')"

section \<open>The graph (create\_langgraph\_workflow)\<close>

datatype node_name =
    validate_recipe_pdf
  | not_recipe_finish
  | download_extract_pdf
  | split_chunks
  | create_embeddings
  | find_relevant_chunks
  | extract_recipe_entity
  | extract_cooking_time
  | create_final_result

datatype target = To node_name | END

definition entry_point :: node_name where
  "entry_point = validate_recipe_pdf"

text \<open>The path map of \<^verbatim>\<open>add_conditional_edges\<close>, from the classifier's label.\<close>

definition path_map :: "(string \<times> node_name) list" where
  "path_map = [(''continue'', download_extract_pdf), (''stop'', not_recipe_finish)]"

text \<open>The edges of \<^verbatim>\<open>add_edge\<close>; the conditional source has none.\<close>

fun edge :: "node_name \<Rightarrow> target option" where
  "edge download_extract_pdf = Some (To split_chunks)"
| "edge split_chunks = Some (To create_embeddings)"
| "edge create_embeddings = Some (To find_relevant_chunks)"
| "edge find_relevant_chunks = Some (To extract_recipe_entity)"
| "edge extract_recipe_entity = Some (To extract_cooking_time)"
| "edge extract_cooking_time = Some (To create_final_result)"
| "edge create_final_result = Some END"
| "edge not_recipe_finish = Some END"
| "edge validate_recipe_pdf = None"

text \<open>
  Where the engine goes after node \<open>n\<close> has returned \<open>state\<close>: through the classifier
  and the path map after \<open>validate_recipe_pdf\<close>, along the edge otherwise. A label
  the path map does not have, or a node with no edge, is an error of the engine.
\<close>

definition next_target :: "node_name \<Rightarrow> 'f workflow_state \<Rightarrow> exn + target" where
  "next_target n state =
     (if n = validate_recipe_pdf then
        (case map_of path_map (should_continue_processing state) of
           Some m \<Rightarrow> Inr (To m)
         | None \<Rightarrow> Inl (Exn OtherException (should_continue_processing state)))
      else
        (case edge n of
           Some t \<Rightarrow> Inr t
         | None \<Rightarrow> Inl (Exn OtherException ''no edge'')))"

section \<open>Terminal nodes\<close>

definition not_recipe_finish_node :: "'f workflow_state \<Rightarrow> 'f workflow_state" where
  "not_recipe_finish_node state =
     (let final_result = RecipeExtractionResult None None
      in state\<lparr>final_result := Some final_result\<rparr>)"

definition create_final_result_node :: "'f workflow_state \<Rightarrow> 'f workflow_state" where
  "create_final_result_node state =
     (let extracted_recipe = extracted_recipe state;
          total_cooking_minutes = total_cooking_minutes state;
          final_result = RecipeExtractionResult extracted_recipe total_cooking_minutes
      in state\<lparr>final_result := Some final_result\<rparr>)"

section \<open>External collaborators\<close>

text \<open>
  The libraries and services the source calls are parameters of the model: each is a
  function that returns its value or raises. Nothing is assumed of them.
\<close>

datatype chat_model = ChatOpenAI string

datatype embedding_model = OpenAIEmbeddings string

datatype vectorstore = Chroma "document list"

text \<open>
  The agent's result as \<^verbatim>\<open>_extract_sum_minutes_from_agent_result\<close> reads it. An
  attribute tested with \<^verbatim>\<open>hasattr\<close> is an \<open>option\<close>. \<open>tc_args\<close> is the
  \<^verbatim>\<open>minutes_list\<close> of the tool call's \<^verbatim>\<open>args\<close>; \<open>agent_output\<close> is the model's
  final answer in words.
\<close>

record 'f tool_call =
  tc_name :: string
  tc_args :: "'f list"

record 'f ai_message =
  tool_calls :: "'f tool_call list option"

record 'f agent_action =
  tool :: "string option"
  message_log :: "'f ai_message list option"

record 'f agent_result =
  agent_output :: string
  intermediate_steps :: "('f agent_action \<times> 'f) list option"

record 'f collaborators =
  http_get :: "string \<Rightarrow> exn + bytes"
  pdf_reader :: "bytes \<Rightarrow> exn + string"
  text_splitter :: "document list \<Rightarrow> exn + document list"
  new_chat_openai :: "string \<Rightarrow> exn + chat_model"
  new_openai_embeddings :: "string \<Rightarrow> exn + embedding_model"
  embed_query :: "embedding_model \<Rightarrow> string \<Rightarrow> exn + 'f list"
  chroma_from_documents :: "document list \<Rightarrow> embedding_model \<Rightarrow> exn + vectorstore"
  similarity_search :: "vectorstore \<Rightarrow> string \<Rightarrow> int \<Rightarrow> exn + document list"
  delete_collection :: "vectorstore \<Rightarrow> exn + unit"
  validation_chain :: "chat_model \<Rightarrow> string \<Rightarrow> bytes \<Rightarrow> exn + pdf_validation_result"
  recipe_chain :: "chat_model \<Rightarrow> string \<Rightarrow> nat \<Rightarrow> exn + 'f recipe_entity"
  agent_executor :: "chat_model \<Rightarrow> string \<Rightarrow> exn + 'f agent_result"

text \<open>
  \<open>http_get\<close> is \<^verbatim>\<open>requests.get\<close> with \<^verbatim>\<open>raise_for_status\<close> and
  \<^verbatim>\<open>.content\<close>; \<open>pdf_reader\<close> is the text of all pages, stripped;
  \<open>validation_chain\<close> is one invocation of the validation chain on the file name and
  the bytes of the PDF; \<open>recipe_chain m c i\<close> is the \<open>i\<close>-th invocation (from 1) of the
  extraction chain, output-fixing parser included, on context \<open>c\<close>;
  \<open>agent_executor\<close> is one run of the tool-calling agent on the context.
\<close>

section \<open>pdf\_service.py\<close>

definition download_pdf_sync :: "'f collaborators \<Rightarrow> string \<Rightarrow> exn + bytes" where
  "download_pdf_sync env url =
     (case http_get env url of
        Inr content \<Rightarrow> Inr content
      | Inl e \<Rightarrow> Inl (Exn OtherException
          (utf8 [80, 68, 70, 227, 131, 128, 227, 130, 166, 227, 131, 179, 227, 131, 173,
                 227, 131, 188, 227, 131, 137, 227, 130, 168, 227, 131, 169, 227, 131, 188,
                 58, 32] @ str e)))"

definition parse_document :: "'f collaborators \<Rightarrow> bytes \<Rightarrow> exn + document" where
  "parse_document env bs =
     (case pdf_reader env bs of
        Inr text \<Rightarrow> Inr \<lparr>page_content = text\<rparr>
      | Inl e \<Rightarrow> Inl (Exn OtherException
          (utf8 [80, 68, 70, 232, 167, 163, 230, 158, 144, 227, 130, 168, 227, 131, 169,
                 227, 131, 188, 58, 32] @ str e)))"

definition split_document :: "'f collaborators \<Rightarrow> document \<Rightarrow> exn + document list" where
  "split_document env doc =
     (case text_splitter env [doc] of
        Inr chunks \<Rightarrow> Inr chunks
      | Inl e \<Rightarrow> Inl (Exn OtherException
          (utf8 [227, 131, 137, 227, 130, 173, 227, 131, 165, 227, 131, 161, 227, 131, 179,
                 227, 131, 136, 229, 136, 134, 229, 137, 178, 227, 130, 168, 227, 131, 169,
                 227, 131, 188, 58, 32] @ str e)))"

section \<open>cooking\_tools.py\<close>

text \<open>
  \<^verbatim>\<open>sum(minutes_list)\<close> adds from the left, starting at 0; the empty list gives
  \<^verbatim>\<open>0.0\<close>.
\<close>

definition sum_minutes :: "'f::{zero,plus} list \<Rightarrow> 'f" where
  "sum_minutes minutes_list =
     (if minutes_list = [] then 0 else foldl (+) 0 minutes_list)"

section \<open>Models, embeddings and retrieval (main.py)\<close>

definition create_chat_model :: "'f collaborators \<Rightarrow> exn + chat_model" where
  "create_chat_model env = new_chat_openai env ''gpt-4o''"

definition create_embedding_model :: "'f collaborators \<Rightarrow> exn + embedding_model" where
  "create_embedding_model env = new_openai_embeddings env ''text-embedding-ada-002''"

text \<open>The loop of \<^verbatim>\<open>create_openai_embeddings\<close>: the first failure leaves it.\<close>

fun embed_loop ::
  "'f collaborators \<Rightarrow> embedding_model \<Rightarrow> string list \<Rightarrow> 'f chunk_embedding list \<Rightarrow>
   exn + 'f chunk_embedding list" where
  "embed_loop env m [] embeddings = Inr embeddings"
| "embed_loop env m (chunk # chunks) embeddings =
     (case embed_query env m chunk of
        Inl e \<Rightarrow> Inl e
      | Inr embedding \<Rightarrow>
          embed_loop env m chunks (embeddings @ [from_embedding chunk embedding]))"

definition create_openai_embeddings ::
  "'f collaborators \<Rightarrow> string list \<Rightarrow> 'f chunk_embedding list" where
  "create_openai_embeddings env chunks =
     (case create_embedding_model env of
        Inl e \<Rightarrow> []
      | Inr embedding_model \<Rightarrow>
          (case embed_loop env embedding_model chunks [] of
             Inl e \<Rightarrow> []
           | Inr embeddings \<Rightarrow> embeddings))"

text \<open>The body of the \<^verbatim>\<open>try\<close> of \<^verbatim>\<open>perform_rag_search\<close>.\<close>

definition rag_search_try ::
  "'f collaborators \<Rightarrow> document list \<Rightarrow> string \<Rightarrow> int \<Rightarrow> exn + document list" where
  "rag_search_try env documents query max_results =
     (case create_embedding_model env of
        Inl e \<Rightarrow> Inl e
      | Inr embedding_model \<Rightarrow>
          (case chroma_from_documents env documents embedding_model of
             Inl e \<Rightarrow> Inl e
           | Inr vs \<Rightarrow>
               (case similarity_search env vs query max_results of
                  Inl e \<Rightarrow> Inl e
                | Inr relevant_docs \<Rightarrow>
                    (case delete_collection env vs of
                       Inl e \<Rightarrow> Inl e
                     | Inr u \<Rightarrow> Inr relevant_docs))))"

definition perform_rag_search ::
  "'f collaborators \<Rightarrow> document list \<Rightarrow> string \<Rightarrow> int \<Rightarrow> document list" where
  "perform_rag_search env documents query max_results =
     (case rag_search_try env documents query max_results of
        Inr relevant_docs \<Rightarrow> relevant_docs
      | Inl e \<Rightarrow> slice_to max_results documents)"

section \<open>Reading the tool call out of the agent's trace\<close>

text \<open>The inner loop over \<^verbatim>\<open>message.tool_calls\<close>: \<open>None\<close> when it ends without returning.\<close>

fun scan_tool_calls :: "'f::{zero,plus} tool_call list \<Rightarrow> 'f option" where
  "scan_tool_calls [] = None"
| "scan_tool_calls (tc # tcs) =
     (if tc_name tc = ''sum_minutes'' then Some (sum_minutes (tc_args tc))
      else scan_tool_calls tcs)"

text \<open>What one step of the trace returns, \<open>None\<close> when the loop goes on to the next step.\<close>

definition scan_step :: "'f::{zero,plus} agent_action \<times> 'f \<Rightarrow> 'f option" where
  "scan_step step =
     (case step of (action, observation) \<Rightarrow>
        if tool action = Some ''sum_minutes'' then
          (case message_log action of
             Some (message # rest) \<Rightarrow>
               (case tool_calls message of
                  Some (tc # tcs) \<Rightarrow> scan_tool_calls (tc # tcs)
                | _ \<Rightarrow> None)
           | _ \<Rightarrow> None)
        else None)"

fun scan_steps :: "('f::{zero,plus} agent_action \<times> 'f) list \<Rightarrow> 'f option" where
  "scan_steps [] = None"
| "scan_steps (step # steps) =
     (case scan_step step of
        Some minutes \<Rightarrow> Some minutes
      | None \<Rightarrow> scan_steps steps)"

definition extract_sum_minutes_from_agent_result ::
  "'f::{zero,plus} agent_result \<Rightarrow> 'f option" where
  "extract_sum_minutes_from_agent_result result =
     (let intermediate_steps =
            (case intermediate_steps result of None \<Rightarrow> [] | Some steps \<Rightarrow> steps)
      in scan_steps intermediate_steps)"

section \<open>Structured extraction and the agent\<close>

text \<open>
  The context of both prompts: each segment's text under a header line, joined by an
  empty line.
\<close>

definition context_of :: "document list \<Rightarrow> string" where
  "context_of docs =
     str_join [CHR 0x0A, CHR 0x0A]
       (map (\<lambda>doc. utf8 [227, 128, 144, 230, 150, 135, 230, 155, 184, 229, 134, 133, 229,
                           174, 185, 227, 128, 145, 10] @ page_content doc) docs)"

text \<open>
  \<^verbatim>\<open>Runnable.with_retry(retry_if_exception_type, stop_after_attempt)\<close> of LangChain:
  attempt \<open>n\<close> (from 1) is invoked; its value is returned; its exception is raised
  again unless it is of a class to retry on and \<open>n\<close> is below \<open>stop_after_attempt\<close>,
  in which case attempt \<open>n + 1\<close> follows. The waiting between attempts is not
  modelled. The result carries the number of attempts made.
\<close>

function with_retry ::
  "(exn \<Rightarrow> bool) \<Rightarrow> nat \<Rightarrow> (nat \<Rightarrow> exn + 'a) \<Rightarrow> nat \<Rightarrow> (exn + 'a) \<times> nat" where
  "with_retry retry_if stop_after_attempt chain n =
     (case chain n of
        Inr v \<Rightarrow> (Inr v, n)
      | Inl e \<Rightarrow>
          if retry_if e \<and> n < stop_after_attempt
          then with_retry retry_if stop_after_attempt chain (Suc n)
          else (Inl e, n))"
  by pat_completeness auto
termination
  by (relation "measure (\<lambda>(retry_if, stop_after_attempt, chain, n). stop_after_attempt - n)")
     auto

declare with_retry.simps [simp del]

text \<open>The chain of \<^verbatim>\<open>generate_answer_with_agent\<close> with its retry, and the attempts it made.\<close>

definition recipe_chain_with_retry ::
  "'f collaborators \<Rightarrow> chat_model \<Rightarrow> string \<Rightarrow> (exn + 'f recipe_entity) \<times> nat" where
  "recipe_chain_with_retry env chat_model context =
     with_retry (\<lambda>e. kind e = OutputParserException) 2 (recipe_chain env chat_model context) 1"

definition generate_answer_with_agent ::
  "'f collaborators \<Rightarrow> document list \<Rightarrow> 'f recipe_entity option" where
  "generate_answer_with_agent env relevant_chunks =
     (let context = context_of relevant_chunks
      in case create_chat_model env of
           Inl e \<Rightarrow> None
         | Inr chat_model \<Rightarrow>
             (case fst (recipe_chain_with_retry env chat_model context) of
                Inr recipe \<Rightarrow> Some recipe
              | Inl e \<Rightarrow> None))"

definition extract_cooking_time_with_tools ::
  "'f::{zero,plus} collaborators \<Rightarrow> document list \<Rightarrow> 'f option" where
  "extract_cooking_time_with_tools env time_related_segments =
     (let context = context_of time_related_segments
      in case create_chat_model env of
           Inl e \<Rightarrow> None
         | Inr chat_model \<Rightarrow>
             (case agent_executor env chat_model context of
                Inl e \<Rightarrow> None
              | Inr result \<Rightarrow>
                  (let total_minutes = extract_sum_minutes_from_agent_result result
                   in if total_minutes \<noteq> None then total_minutes else None)))"

section \<open>The nodes\<close>

text \<open>
  Each node with a \<^verbatim>\<open>try\<close> is the body of the \<^verbatim>\<open>try\<close>, which returns the new
  state or raises, and the handler around it. The \<^verbatim>\<open>print\<close> calls are left out.
\<close>

text \<open>\<^verbatim>\<open>state['pdf_url'].split('/')[-1] or 'recipe.pdf'\<close>\<close>

definition filename_of :: "string \<Rightarrow> string" where
  "filename_of url =
     (let name = last (str_split CHR ''/'' url)
      in if name = [] then ''recipe.pdf'' else name)"

definition validate_recipe_pdf_try ::
  "'f collaborators \<Rightarrow> 'f workflow_state \<Rightarrow> exn + 'f workflow_state" where
  "validate_recipe_pdf_try env state =
     (case download_pdf_sync env (pdf_url state) of
        Inl e \<Rightarrow> Inl e
      | Inr bs \<Rightarrow>
          (let filename = filename_of (pdf_url state)
           in case create_chat_model env of
                Inl e \<Rightarrow> Inl e
              | Inr chat_model \<Rightarrow>
                  (case validation_chain env chat_model filename bs of
                     Inl e \<Rightarrow> Inl e
                   | Inr vr \<Rightarrow> Inr (state\<lparr>validation_result := Some vr\<rparr>))))"

text \<open>The handler's reason: "an error occurred, so processing continues", in Japanese.\<close>

definition validate_recipe_pdf_node ::
  "'f collaborators \<Rightarrow> 'f workflow_state \<Rightarrow> 'f workflow_state" where
  "validate_recipe_pdf_node env state =
     (case validate_recipe_pdf_try env state of
        Inr state' \<Rightarrow> state'
      | Inl e \<Rightarrow>
          (let vr = \<lparr>is_recipe = True,
                     reason = utf8 [227, 130, 168, 227, 131, 169, 227, 131, 188, 227, 129,
                       140, 231, 153, 186, 231, 148, 159, 227, 129, 151, 227, 129, 159, 227,
                       129, 159, 227, 130, 129, 227, 128, 129, 229, 135, 166, 231, 144, 134,
                       227, 130, 146, 231, 182, 154, 232, 161, 140, 227, 129, 151, 227, 129,
                       190, 227, 129, 153]\<rparr>
           in state\<lparr>validation_result := Some vr\<rparr>))"

definition download_extract_pdf_try ::
  "'f collaborators \<Rightarrow> 'f workflow_state \<Rightarrow> exn + 'f workflow_state" where
  "download_extract_pdf_try env state =
     (case download_pdf_sync env (pdf_url state) of
        Inl e \<Rightarrow> Inl e
      | Inr bs \<Rightarrow>
          (case parse_document env bs of
             Inl e \<Rightarrow> Inl e
           | Inr doc \<Rightarrow>
               Inr (state\<lparr>pdf_content :=
                      Some \<lparr>pdf_bytes = bs, extracted_text = page_content doc\<rparr>\<rparr>)))"

definition download_extract_pdf_node ::
  "'f collaborators \<Rightarrow> 'f workflow_state \<Rightarrow> 'f workflow_state" where
  "download_extract_pdf_node env state =
     (case download_extract_pdf_try env state of
        Inr state' \<Rightarrow> state'
      | Inl e \<Rightarrow> state\<lparr>error := Some (str e)\<rparr>)"

definition split_chunks_try ::
  "'f collaborators \<Rightarrow> 'f workflow_state \<Rightarrow> exn + 'f workflow_state" where
  "split_chunks_try env state =
     (case attr (pdf_content state) pdf_bytes ''pdf_bytes'' of
        Inl e \<Rightarrow> Inl e
      | Inr bs \<Rightarrow>
          (case parse_document env bs of
             Inl e \<Rightarrow> Inl e
           | Inr doc \<Rightarrow>
               (case split_document env doc of
                  Inl e \<Rightarrow> Inl e
                | Inr segments \<Rightarrow>
                    (case attr (pdf_content state) extracted_text ''extracted_text'' of
                       Inl e \<Rightarrow> Inl e
                     | Inr text \<Rightarrow>
                         Inr (state\<lparr>document_chunks :=
                                Some \<lparr>original_text = text, text_segments = segments\<rparr>\<rparr>)))))"

definition split_chunks_node ::
  "'f collaborators \<Rightarrow> 'f workflow_state \<Rightarrow> 'f workflow_state" where
  "split_chunks_node env state =
     (case split_chunks_try env state of
        Inr state' \<Rightarrow> state'
      | Inl e \<Rightarrow> state\<lparr>error := Some (str e)\<rparr>)"

definition create_embeddings_try ::
  "'f collaborators \<Rightarrow> 'f workflow_state \<Rightarrow> exn + 'f workflow_state" where
  "create_embeddings_try env state =
     (case attr (document_chunks state) text_segments ''text_segments'' of
        Inl e \<Rightarrow> Inl e
      | Inr segments \<Rightarrow>
          (let chunk_texts = map page_content segments;
               embeddings = create_openai_embeddings env chunk_texts
           in Inr (state\<lparr>embedded_chunks :=
                     Some \<lparr>ec_text_segments = segments, chunk_embeddings = embeddings\<rparr>\<rparr>)))"

definition create_embeddings_node ::
  "'f collaborators \<Rightarrow> 'f workflow_state \<Rightarrow> 'f workflow_state" where
  "create_embeddings_node env state =
     (case create_embeddings_try env state of
        Inr state' \<Rightarrow> state'
      | Inl e \<Rightarrow> state\<lparr>error := Some (str e)\<rparr>)"

text \<open>The query of the entity retrieval: "recipe name, ingredients, amounts".\<close>

definition recipe_query :: string where
  "recipe_query = utf8 [227, 131, 172, 227, 130, 183, 227, 131, 148, 229, 144, 141, 32, 230,
     157, 144, 230, 150, 153, 32, 229, 136, 134, 233, 135, 143]"

definition find_relevant_chunks_try ::
  "'f collaborators \<Rightarrow> 'f workflow_state \<Rightarrow> exn + 'f workflow_state" where
  "find_relevant_chunks_try env state =
     (case attr (embedded_chunks state) ec_text_segments ''text_segments'' of
        Inl e \<Rightarrow> Inl e
      | Inr segments \<Rightarrow>
          (let relevant_segments = perform_rag_search env segments recipe_query 5
           in Inr (state\<lparr>recipe_relevant_segments := Some relevant_segments\<rparr>)))"

definition find_relevant_chunks_node ::
  "'f collaborators \<Rightarrow> 'f workflow_state \<Rightarrow> 'f workflow_state" where
  "find_relevant_chunks_node env state =
     (case find_relevant_chunks_try env state of
        Inr state' \<Rightarrow> state'
      | Inl e \<Rightarrow> state\<lparr>error := Some (str e)\<rparr>)"

text \<open>
  \<^verbatim>\<open>if relevant_segments:\<close> holds for a list that is neither \<^verbatim>\<open>None\<close> nor
  empty. \<^verbatim>\<open>generate_answer_with_agent\<close> catches its own exceptions, so the node's
  handler has nothing to catch.
\<close>

definition extract_recipe_entity_node ::
  "'f collaborators \<Rightarrow> 'f workflow_state \<Rightarrow> 'f workflow_state" where
  "extract_recipe_entity_node env state =
     (case recipe_relevant_segments state of
        Some (seg # segs) \<Rightarrow>
          state\<lparr>extracted_recipe := generate_answer_with_agent env (seg # segs)\<rparr>
      | _ \<Rightarrow> state\<lparr>extracted_recipe := None\<rparr>)"

text \<open>The query of the time retrieval: "time, minutes, cooking time, working time, total".\<close>

definition time_query :: string where
  "time_query = utf8 [230, 153, 130, 233, 150, 147, 32, 229, 136, 134, 32, 232, 170, 191, 231,
     144, 134, 230, 153, 130, 233, 150, 147, 32, 228, 189, 156, 230, 165, 173, 230, 153, 130,
     233, 150, 147, 32, 229, 144, 136, 232, 168, 136]"

definition extract_cooking_time_try ::
  "'f::{zero,plus} collaborators \<Rightarrow> 'f workflow_state \<Rightarrow> exn + 'f workflow_state" where
  "extract_cooking_time_try env state =
     (case attr (embedded_chunks state) ec_text_segments ''text_segments'' of
        Inl e \<Rightarrow> Inl e
      | Inr segments \<Rightarrow>
          (let time_related_segments = perform_rag_search env segments time_query 3
           in if time_related_segments \<noteq> [] then
                Inr (state\<lparr>total_cooking_minutes :=
                       extract_cooking_time_with_tools env time_related_segments\<rparr>)
              else Inr (state\<lparr>total_cooking_minutes := None\<rparr>)))"

definition extract_cooking_time_node ::
  "'f::{zero,plus} collaborators \<Rightarrow> 'f workflow_state \<Rightarrow> 'f workflow_state" where
  "extract_cooking_time_node env state =
     (case extract_cooking_time_try env state of
        Inr state' \<Rightarrow> state'
      | Inl e \<Rightarrow> state\<lparr>total_cooking_minutes := None\<rparr>)"

section \<open>The engine\<close>

text \<open>The node functions of \<^verbatim>\<open>add_node\<close>.\<close>

fun node_function ::
  "'f::{zero,plus} collaborators \<Rightarrow> node_name \<Rightarrow> 'f workflow_state \<Rightarrow> 'f workflow_state" where
  "node_function env validate_recipe_pdf = validate_recipe_pdf_node env"
| "node_function env not_recipe_finish = not_recipe_finish_node"
| "node_function env download_extract_pdf = download_extract_pdf_node env"
| "node_function env split_chunks = split_chunks_node env"
| "node_function env create_embeddings = create_embeddings_node env"
| "node_function env find_relevant_chunks = find_relevant_chunks_node env"
| "node_function env extract_recipe_entity = extract_recipe_entity_node env"
| "node_function env extract_cooking_time = extract_cooking_time_node env"
| "node_function env create_final_result = create_final_result_node"

text \<open>The number of edges from a node to \<open>END\<close>: what decreases along a run.\<close>

fun distance_to_end :: "node_name \<Rightarrow> nat" where
  "distance_to_end validate_recipe_pdf = 8"
| "distance_to_end download_extract_pdf = 7"
| "distance_to_end split_chunks = 6"
| "distance_to_end create_embeddings = 5"
| "distance_to_end find_relevant_chunks = 4"
| "distance_to_end extract_recipe_entity = 3"
| "distance_to_end extract_cooking_time = 2"
| "distance_to_end create_final_result = 1"
| "distance_to_end not_recipe_finish = 1"

text \<open>
  A run of the compiled graph from node \<open>n\<close>: the node's function is applied to the
  state, its result is the new state, and the engine follows \<open>next_target\<close> until
  \<open>END\<close>. The result is the log of the run, each executed node with the state it
  returned, in order.
\<close>

function run_from ::
  "'f::{zero,plus} collaborators \<Rightarrow> node_name \<Rightarrow> 'f workflow_state \<Rightarrow>
   exn + (node_name \<times> 'f workflow_state) list" where
  "run_from env n state =
     (case next_target n (node_function env n state) of
        Inl e \<Rightarrow> Inl e
      | Inr END \<Rightarrow> Inr [(n, node_function env n state)]
      | Inr (To m) \<Rightarrow>
          (case run_from env m (node_function env n state) of
             Inl e \<Rightarrow> Inl e
           | Inr rest \<Rightarrow> Inr ((n, node_function env n state) # rest)))"
  by pat_completeness auto
termination
  apply (relation "measure (\<lambda>(env, n, state). distance_to_end n)")
   apply simp
  subgoal for env n state t m
    by (cases n)
       (auto simp: next_target_def path_map_def should_continue_processing_def
             split: option.splits if_splits)
  done

declare run_from.simps [simp del]

definition invoke :: "'f::{zero,plus} collaborators \<Rightarrow> 'f workflow_state \<Rightarrow>
  exn + 'f workflow_state" where
  "invoke env initial_state =
     (case run_from env entry_point initial_state of
        Inl e \<Rightarrow> Inl e
      | Inr trace \<Rightarrow> Inr (snd (last trace)))"

text \<open>The initial state of \<^verbatim>\<open>execute_langgraph_workflow\<close>.\<close>

definition initial_state :: "string \<Rightarrow> 'f workflow_state" where
  "initial_state url =
     \<lparr>pdf_url = url, validation_result = None, pdf_content = None,
      document_chunks = None, embedded_chunks = None,
      recipe_relevant_segments = None, extracted_recipe = None,
      total_cooking_minutes = None, final_result = None, error = None\<rparr>"

definition execute_langgraph_workflow ::
  "'f::{zero,plus} collaborators \<Rightarrow> string \<Rightarrow> 'f recipe_extraction_result option" where
  "execute_langgraph_workflow env url =
     (case invoke env (initial_state url) of
        Inr final_state \<Rightarrow> final_result final_state
      | Inl e \<Rightarrow> Some (RecipeExtractionResult None None))"

section \<open>Concrete collaborators and inputs\<close>

text \<open>Collaborators that all raise, as when no service can be reached.\<close>

definition offline :: "'f collaborators" where
  "offline =
     \<lparr>http_get = (\<lambda>url. Inl (Exn OtherException ''offline'')),
      pdf_reader = (\<lambda>bs. Inl (Exn OtherException ''offline'')),
      text_splitter = (\<lambda>docs. Inl (Exn OtherException ''offline'')),
      new_chat_openai = (\<lambda>name. Inl (Exn OtherException ''offline'')),
      new_openai_embeddings = (\<lambda>name. Inl (Exn OtherException ''offline'')),
      embed_query = (\<lambda>m text. Inl (Exn OtherException ''offline'')),
      chroma_from_documents = (\<lambda>docs m. Inl (Exn OtherException ''offline'')),
      similarity_search = (\<lambda>vs query k. Inl (Exn OtherException ''offline'')),
      delete_collection = (\<lambda>vs. Inl (Exn OtherException ''offline'')),
      validation_chain = (\<lambda>m filename bs. Inl (Exn OtherException ''offline'')),
      recipe_chain = (\<lambda>m context i. Inl (Exn OtherException ''offline'')),
      agent_executor = (\<lambda>m context. Inl (Exn OtherException ''offline''))\<rparr>"

definition recipe_url :: string where
  "recipe_url = ''https://kyushucgc.co.jp/recipe_pdf/202112/recipe05.pdf''"

definition curry :: "real recipe_entity" where
  "curry =
     \<lparr>recipe_name = ''curry'',
      ingredients =
        [\<lparr>ingredient_name = ''onion'', ingredient_unit = ''piece'', ingredient_quantity = 2\<rparr>,
         \<lparr>ingredient_name = ''beef'', ingredient_unit = ''gram'', ingredient_quantity = 300\<rparr>]\<rparr>"

definition flaky_embeddings :: "real collaborators" where
  "flaky_embeddings =
     offline\<lparr>new_openai_embeddings := (\<lambda>name. Inr (OpenAIEmbeddings name)),
             embed_query := (\<lambda>m text. if text = ''b''
                                      then Inl (Exn OtherException ''rate limit'')
                                      else Inr [1, 0])\<rparr>"

definition abc_chunks :: document_chunks where
  "abc_chunks =
     \<lparr>original_text = ''abc'',
      text_segments =
        [\<lparr>page_content = ''a''\<rparr>, \<lparr>page_content = ''b''\<rparr>, \<lparr>page_content = ''c''\<rparr>]\<rparr>"

text \<open>An embedding model and a vector store that work, and a search that raises.\<close>

definition search_down :: "real collaborators" where
  "search_down =
     offline\<lparr>new_openai_embeddings := (\<lambda>name. Inr (OpenAIEmbeddings name)),
             chroma_from_documents := (\<lambda>docs m. Inr (Chroma docs))\<rparr>"

text \<open>
  A trace in which the model called the tool on 10, 15 and 5 and then answered
  something else in words, and a trace with no tool call.
\<close>

definition sums_trace :: "real agent_result" where
  "sums_trace =
     \<lparr>agent_output = ''about 25 minutes'',
      intermediate_steps = Some
        [(\<lparr>tool = Some ''sum_minutes'',
           message_log = Some
             [\<lparr>tool_calls = Some [\<lparr>tc_name = ''sum_minutes'', tc_args = [10, 15, 5]\<rparr>]\<rparr>]\<rparr>,
          30)]\<rparr>"

definition no_tool_trace :: "real agent_result" where
  "no_tool_trace = \<lparr>agent_output = ''about 25 minutes'', intermediate_steps = Some []\<rparr>"

section \<open>The tool invocations of a trace, in the specification's words\<close>

text \<open>
  The specification speaks of the tool-invocation record found in the interaction
  trace. \<open>sum_minutes_invocations\<close> lists, in the order of the trace, the tool calls
  named \<open>sum_minutes\<close> that the first message of a \<open>sum_minutes\<close> step carries. It is
  written from those words, to be compared with the search of the source.
\<close>

definition step_invocations :: "'f agent_action \<times> 'f \<Rightarrow> 'f tool_call list" where
  "step_invocations step =
     (case step of (action, observation) \<Rightarrow>
        if tool action = Some ''sum_minutes'' then
          (case message_log action of
             Some (message # rest) \<Rightarrow>
               (case tool_calls message of
                  Some tcs \<Rightarrow> filter (\<lambda>tc. tc_name tc = ''sum_minutes'') tcs
                | None \<Rightarrow> [])
           | _ \<Rightarrow> [])
        else [])"

definition sum_minutes_invocations :: "'f agent_result \<Rightarrow> 'f tool_call list" where
  "sum_minutes_invocations result =
     concat (map step_invocations
       (case intermediate_steps result of None \<Rightarrow> [] | Some steps \<Rightarrow> steps))"

section \<open>Concrete collaborators for the extraction and the run\<close>

text \<open>
  An extractor whose first output fails the schema and whose second is valid, one
  whose output never passes, and a validator that rejects the document.
\<close>

definition second_attempt_valid :: "real collaborators" where
  "second_attempt_valid =
     offline\<lparr>new_chat_openai := (\<lambda>name. Inr (ChatOpenAI name)),
             recipe_chain := (\<lambda>m context i.
               if i = 1 then Inl (Exn OutputParserException ''invalid json'')
               else Inr curry)\<rparr>"

definition never_valid :: "real collaborators" where
  "never_valid =
     offline\<lparr>new_chat_openai := (\<lambda>name. Inr (ChatOpenAI name)),
             recipe_chain :=
               (\<lambda>m context i. Inl (Exn OutputParserException ''invalid json''))\<rparr>"

text \<open>An extractor that would answer, behind a chat model that cannot be made.\<close>

definition no_chat_model :: "real collaborators" where
  "no_chat_model = offline\<lparr>recipe_chain := (\<lambda>m context i. Inr curry)\<rparr>"

definition curry_segments :: "document list" where
  "curry_segments = [\<lparr>page_content = ''curry: 2 onions, 300 g beef''\<rparr>]"

definition rejecting :: "real collaborators" where
  "rejecting =
     offline\<lparr>http_get := (\<lambda>url. Inr ''%PDF''),
             new_chat_openai := (\<lambda>name. Inr (ChatOpenAI name)),
             validation_chain :=
               (\<lambda>m filename bs. Inr \<lparr>is_recipe = False, reason = ''an invoice''\<rparr>)\<rparr>"

section \<open>Branch correctness\<close>

text \<open>
  C5: when \<open>validation_result\<close> is present, the classifier returns "continue" and the
  engine goes to \<open>download_extract_pdf\<close> if \<open>is_recipe\<close> is true; it returns "stop"
  and the engine goes to \<open>not_recipe_finish\<close> if \<open>is_recipe\<close> is false.
\<close>

theorem branch_on_is_recipe:
  "validation_result state = Some vr \<Longrightarrow>
     (is_recipe vr \<longrightarrow>
        should_continue_processing state = ''continue'' \<and>
        next_target validate_recipe_pdf state = Inr (To download_extract_pdf)) \<and>
     (\<not> is_recipe vr \<longrightarrow>
        should_continue_processing state = ''stop'' \<and>
        next_target validate_recipe_pdf state = Inr (To not_recipe_finish))"
  by (simp add: should_continue_processing_def next_target_def path_map_def)

theorem branch_on_is_recipe_witness:
  "should_continue_processing
     ((initial_state recipe_url :: real workflow_state)
        \<lparr>validation_result := Some \<lparr>is_recipe = True, reason = ''a recipe''\<rparr>\<rparr>) = ''continue'' \<and>
   next_target validate_recipe_pdf
     ((initial_state recipe_url :: real workflow_state)
        \<lparr>validation_result := Some \<lparr>is_recipe = True, reason = ''a recipe''\<rparr>\<rparr>)
     = Inr (To download_extract_pdf) \<and>
   should_continue_processing
     ((initial_state recipe_url :: real workflow_state)
        \<lparr>validation_result := Some \<lparr>is_recipe = False, reason = ''an invoice''\<rparr>\<rparr>) = ''stop'' \<and>
   next_target validate_recipe_pdf
     ((initial_state recipe_url :: real workflow_state)
        \<lparr>validation_result := Some \<lparr>is_recipe = False, reason = ''an invoice''\<rparr>\<rparr>)
     = Inr (To not_recipe_finish)"
  using
    branch_on_is_recipe
      [of "(initial_state recipe_url :: real workflow_state)
             \<lparr>validation_result := Some \<lparr>is_recipe = True, reason = ''a recipe''\<rparr>\<rparr>"
          "\<lparr>is_recipe = True, reason = ''a recipe''\<rparr>"]
    branch_on_is_recipe
      [of "(initial_state recipe_url :: real workflow_state)
             \<lparr>validation_result := Some \<lparr>is_recipe = False, reason = ''an invoice''\<rparr>\<rparr>"
          "\<lparr>is_recipe = False, reason = ''an invoice''\<rparr>"]
  by simp

section \<open>Rejection\<close>

text \<open>
  C7: whatever the input state holds, \<open>not_recipe_finish\<close> sets \<open>final_result\<close> to a
  result whose \<open>extracted_recipe\<close> and \<open>total_cooking_minutes\<close> are both \<open>None\<close>, and
  changes no other field.
\<close>

theorem not_recipe_finish_result:
  "not_recipe_finish_node state =
     state\<lparr>final_result :=
       Some \<lparr>res_extracted_recipe = None, res_total_cooking_minutes = None\<rparr>\<rparr> \<and>
   (\<exists>r. final_result (not_recipe_finish_node state) = Some r \<and>
        res_extracted_recipe r = None \<and> res_total_cooking_minutes r = None)"
  by (simp add: not_recipe_finish_node_def RecipeExtractionResult_def)

theorem not_recipe_finish_result_witness:
  "final_result
     (not_recipe_finish_node
        ((initial_state recipe_url)
           \<lparr>pdf_content := Some \<lparr>pdf_bytes = ''%PDF'', extracted_text = ''curry''\<rparr>,
            extracted_recipe := Some curry,
            total_cooking_minutes := Some 30\<rparr>))
   = Some \<lparr>res_extracted_recipe = None, res_total_cooking_minutes = None\<rparr>"
  using not_recipe_finish_result
    [of "(initial_state recipe_url)
           \<lparr>pdf_content := Some \<lparr>pdf_bytes = ''%PDF'', extracted_text = ''curry''\<rparr>,
            extracted_recipe := Some curry,
            total_cooking_minutes := Some 30\<rparr>"]
  by simp

section \<open>The total of the cooking times\<close>

lemma sum_minutes_foldl: "sum_minutes xs = foldl (+) 0 xs"
  by (simp add: sum_minutes_def)

lemma scan_tool_calls_filter:
  "scan_tool_calls tcs =
     (case filter (\<lambda>tc. tc_name tc = ''sum_minutes'') tcs of
        [] \<Rightarrow> None
      | tc # rest \<Rightarrow> Some (foldl (+) 0 (tc_args tc)))"
  by (induction tcs) (simp_all add: sum_minutes_foldl)

lemma scan_step_invocations:
  "scan_step step =
     (case step_invocations step of
        [] \<Rightarrow> None
      | tc # rest \<Rightarrow> Some (foldl (+) 0 (tc_args tc)))"
proof (cases step)
  case (Pair action observation)
  show ?thesis
  proof (cases "tool action = Some ''sum_minutes''")
    case False
    then show ?thesis using Pair by (simp add: scan_step_def step_invocations_def)
  next
    case True
    show ?thesis
    proof (cases "message_log action")
      case None
      then show ?thesis using Pair True by (simp add: scan_step_def step_invocations_def)
    next
      case (Some msgs)
      show ?thesis
      proof (cases msgs)
        case Nil
        then show ?thesis using Pair True Some
          by (simp add: scan_step_def step_invocations_def)
      next
        case (Cons message rest)
        show ?thesis
        proof (cases "tool_calls message")
          case None
          then show ?thesis using Pair True Some Cons
            by (simp add: scan_step_def step_invocations_def)
        next
          case tcs: (Some tcs)
          show ?thesis
          proof (cases tcs)
            case Nil
            then show ?thesis using Pair True Some Cons tcs
              by (simp add: scan_step_def step_invocations_def)
          next
            case (Cons tc tcs')
            have "scan_step step = scan_tool_calls tcs"
              using Pair True Some \<open>msgs = message # rest\<close> tcs Cons
              by (simp add: scan_step_def)
            moreover have "step_invocations step
                = filter (\<lambda>tc. tc_name tc = ''sum_minutes'') tcs"
              using Pair True Some \<open>msgs = message # rest\<close> tcs
              by (simp add: step_invocations_def)
            ultimately show ?thesis
              by (simp only: scan_tool_calls_filter)
          qed
        qed
      qed
    qed
  qed
qed

lemma scan_steps_invocations:
  "scan_steps steps =
     (case concat (map step_invocations steps) of
        [] \<Rightarrow> None
      | tc # rest \<Rightarrow> Some (foldl (+) 0 (tc_args tc)))"
proof (induction steps)
  case Nil
  then show ?case by simp
next
  case (Cons step steps)
  show ?case
  proof (cases "step_invocations step")
    case Nil
    then show ?thesis using Cons by (simp add: scan_step_invocations)
  next
    case (Cons tc rest)
    then show ?thesis by (simp add: scan_step_invocations)
  qed
qed

lemma scan_steps_no_tool:
  "\<forall>step\<in>set steps. tool (fst step) \<noteq> Some ''sum_minutes'' \<Longrightarrow> scan_steps steps = None"
  by (induction steps) (auto simp: scan_step_def split: prod.splits)

text \<open>
  C2: the total that \<open>_extract_sum_minutes_from_agent_result\<close> reports is the sum,
  added from the left starting at 0, of the argument list of the first \<open>sum_minutes\<close>
  tool invocation of the trace, and \<open>None\<close> when the trace has none (in particular
  when no step is a \<open>sum_minutes\<close> step); it does not depend on the model's answer in
  words; and it is what \<open>extract_cooking_time_with_tools\<close> returns when the agent has
  run. With the arguments 10, 15 and 5 the total is 30.
\<close>

theorem total_is_sum_of_tool_arguments:
  "extract_sum_minutes_from_agent_result result =
     (case sum_minutes_invocations result of
        [] \<Rightarrow> None
      | tc # rest \<Rightarrow> Some (foldl (+) 0 (tc_args tc))) \<and>
   extract_sum_minutes_from_agent_result (result\<lparr>agent_output := answer\<rparr>)
     = extract_sum_minutes_from_agent_result result \<and>
   ((\<forall>step\<in>set (case intermediate_steps result of None \<Rightarrow> [] | Some steps \<Rightarrow> steps).
        tool (fst step) \<noteq> Some ''sum_minutes'') \<longrightarrow>
      extract_sum_minutes_from_agent_result result = None) \<and>
   (create_chat_model env = Inr m \<and> agent_executor env m (context_of segments) = Inr result \<longrightarrow>
      extract_cooking_time_with_tools env segments
        = extract_sum_minutes_from_agent_result result)"
proof (intro conjI impI)
  show "extract_sum_minutes_from_agent_result result =
     (case sum_minutes_invocations result of
        [] \<Rightarrow> None
      | tc # rest \<Rightarrow> Some (foldl (+) 0 (tc_args tc)))"
    by (simp add: extract_sum_minutes_from_agent_result_def sum_minutes_invocations_def
        scan_steps_invocations)
  show "extract_sum_minutes_from_agent_result (result\<lparr>agent_output := answer\<rparr>)
     = extract_sum_minutes_from_agent_result result"
    by (simp add: extract_sum_minutes_from_agent_result_def)
  show "extract_sum_minutes_from_agent_result result = None"
    if "\<forall>step\<in>set (case intermediate_steps result of None \<Rightarrow> [] | Some steps \<Rightarrow> steps).
        tool (fst step) \<noteq> Some ''sum_minutes''"
    unfolding extract_sum_minutes_from_agent_result_def Let_def
    using that by (rule scan_steps_no_tool)
  show "extract_cooking_time_with_tools env segments
        = extract_sum_minutes_from_agent_result result"
    if "create_chat_model env = Inr m \<and> agent_executor env m (context_of segments) = Inr result"
    using that by (auto simp: extract_cooking_time_with_tools_def Let_def)
qed

theorem total_is_sum_of_tool_arguments_witness:
  "extract_sum_minutes_from_agent_result sums_trace = Some 30 \<and>
   extract_sum_minutes_from_agent_result (sums_trace\<lparr>agent_output := ''45 minutes''\<rparr>) = Some 30 \<and>
   extract_sum_minutes_from_agent_result no_tool_trace = None"
  using total_is_sum_of_tool_arguments [of sums_trace "''45 minutes''" offline "ChatOpenAI ''gpt-4o''" "[]"]
    total_is_sum_of_tool_arguments [of no_tool_trace "''45 minutes''" offline "ChatOpenAI ''gpt-4o''" "[]"]
  by (simp add: sums_trace_def no_tool_trace_def sum_minutes_invocations_def
      step_invocations_def)

section \<open>The embed node\<close>

lemma embed_loop_all_ok:
  "\<forall>c\<in>set chunks. embed_query env m c = Inr (vec c) \<Longrightarrow>
   embed_loop env m chunks acc = Inr (acc @ map (\<lambda>c. from_embedding c (vec c)) chunks)"
  by (induction chunks arbitrary: acc) auto

lemma embed_loop_one_fails:
  "\<exists>c\<in>set chunks. \<exists>e. embed_query env m c = Inl e \<Longrightarrow>
   \<exists>e. embed_loop env m chunks acc = Inl e"
proof (induction chunks arbitrary: acc)
  case Nil
  then show ?case by simp
next
  case (Cons c chunks)
  show ?case
  proof (cases "embed_query env m c")
    case (Inl e)
    then show ?thesis by simp
  next
    case (Inr v)
    with Cons.prems have "\<exists>c\<in>set chunks. \<exists>e. embed_query env m c = Inl e"
      by auto
    then show ?thesis using Inr Cons.IH by simp
  qed
qed

text \<open>
  C3 (as the code has it): the segments are embedded in order inside one \<open>try\<close>. When
  the embedding of every segment succeeds, one (text, vector) pair per segment is
  returned, in the order of the segments. When the embedding of any one segment
  fails, the pairs of all segments are dropped: the list of embeddings is empty. In
  both cases the node does not fail: it stores \<open>embedded_chunks\<close> with the segments
  and that list, and changes nothing else. The claim's "only that segment's pair is
  dropped" does not hold.
\<close>

theorem embed_node_all_or_nothing:
  "document_chunks state = Some dc \<Longrightarrow>
   create_embedding_model env = Inr m \<Longrightarrow>
     create_embeddings_node env state =
       state\<lparr>embedded_chunks :=
         Some \<lparr>ec_text_segments = text_segments dc,
               chunk_embeddings =
                 create_openai_embeddings env (map page_content (text_segments dc))\<rparr>\<rparr> \<and>
     ((\<forall>c\<in>set chunks. embed_query env m c = Inr (vec c)) \<longrightarrow>
        create_openai_embeddings env chunks = map (\<lambda>c. from_embedding c (vec c)) chunks) \<and>
     ((\<exists>c\<in>set chunks. \<exists>e. embed_query env m c = Inl e) \<longrightarrow>
        create_openai_embeddings env chunks = [])"
proof (intro conjI impI)
  assume dc: "document_chunks state = Some dc" and m: "create_embedding_model env = Inr m"
  show "create_embeddings_node env state =
       state\<lparr>embedded_chunks :=
         Some \<lparr>ec_text_segments = text_segments dc,
               chunk_embeddings =
                 create_openai_embeddings env (map page_content (text_segments dc))\<rparr>\<rparr>"
    using dc by (simp add: create_embeddings_node_def create_embeddings_try_def attr_def)
  {
    assume "\<forall>c\<in>set chunks. embed_query env m c = Inr (vec c)"
    then show "create_openai_embeddings env chunks = map (\<lambda>c. from_embedding c (vec c)) chunks"
      using m embed_loop_all_ok [of chunks env m vec "[]"]
      by (simp add: create_openai_embeddings_def)
  }
  {
    assume "\<exists>c\<in>set chunks. \<exists>e. embed_query env m c = Inl e"
    then obtain e where "embed_loop env m chunks [] = Inl e"
      using embed_loop_one_fails [of chunks env m "[]"] by blast
    then show "create_openai_embeddings env chunks = []"
      using m by (simp add: create_openai_embeddings_def)
  }
qed

theorem embed_node_all_or_nothing_witness:
  "document_chunks ((initial_state recipe_url :: real workflow_state)
      \<lparr>document_chunks := Some abc_chunks\<rparr>) = Some abc_chunks \<and>
   create_embedding_model flaky_embeddings = Inr (OpenAIEmbeddings ''text-embedding-ada-002'') \<and>
   create_openai_embeddings flaky_embeddings [''a'', ''c'']
     = [\<lparr>chunk_text = ''a'', vector_embedding = [1, 0]\<rparr>,
        \<lparr>chunk_text = ''c'', vector_embedding = [1, 0]\<rparr>] \<and>
   create_openai_embeddings flaky_embeddings [''a'', ''b'', ''c''] = [] \<and>
   embedded_chunks
     (create_embeddings_node flaky_embeddings
        ((initial_state recipe_url)\<lparr>document_chunks := Some abc_chunks\<rparr>))
   = Some \<lparr>ec_text_segments = text_segments abc_chunks, chunk_embeddings = []\<rparr>"
  using
    embed_node_all_or_nothing
      [of "(initial_state recipe_url :: real workflow_state)\<lparr>document_chunks := Some abc_chunks\<rparr>"
          abc_chunks flaky_embeddings "OpenAIEmbeddings ''text-embedding-ada-002''"
          "[''a'', ''c'']" "\<lambda>c. [1, 0]"]
    embed_node_all_or_nothing
      [of "(initial_state recipe_url :: real workflow_state)\<lparr>document_chunks := Some abc_chunks\<rparr>"
          abc_chunks flaky_embeddings "OpenAIEmbeddings ''text-embedding-ada-002''"
          "[''a'', ''b'', ''c'']" "\<lambda>c. [1, 0]"]
  by (simp add: flaky_embeddings_def offline_def abc_chunks_def create_embedding_model_def
      from_embedding_def)

theorem embed_node_drops_every_pair:
  "embed_query flaky_embeddings (OpenAIEmbeddings ''text-embedding-ada-002'') ''a''
     = Inr [1, 0] \<and>
   embed_query flaky_embeddings (OpenAIEmbeddings ''text-embedding-ada-002'') ''b''
     = Inl (Exn OtherException ''rate limit'') \<and>
   embed_query flaky_embeddings (OpenAIEmbeddings ''text-embedding-ada-002'') ''c''
     = Inr [1, 0] \<and>
   embedded_chunks
     (create_embeddings_node flaky_embeddings
        ((initial_state recipe_url)\<lparr>document_chunks := Some abc_chunks\<rparr>))
   = Some \<lparr>ec_text_segments = text_segments abc_chunks, chunk_embeddings = []\<rparr>"
  by (simp add: flaky_embeddings_def offline_def abc_chunks_def create_embeddings_node_def
      create_embeddings_try_def attr_def create_openai_embeddings_def
      create_embedding_model_def initial_state_def)

section \<open>Retrieval\<close>

text \<open>
  C4 (as the code has it): when \<open>embedded_chunks\<close> is absent, neither retrieval step
  raises out of its node and neither runs a search. The entity-retrieval node
  catches the \<open>AttributeError\<close>, records its message in \<open>error\<close> and leaves
  \<open>recipe_relevant_segments\<close> as it was: it writes no empty list. The time-retrieval
  step sets \<open>total_cooking_minutes\<close> to \<open>None\<close> and changes nothing else.
\<close>

theorem absent_embedded_chunks_handled:
  "embedded_chunks state = None \<Longrightarrow>
     find_relevant_chunks_node env state =
       state\<lparr>error := Some (squote ''NoneType'' @ '' object has no attribute ''
                              @ squote ''text_segments'')\<rparr> \<and>
     recipe_relevant_segments (find_relevant_chunks_node env state)
       = recipe_relevant_segments state \<and>
     extract_cooking_time_node env state = state\<lparr>total_cooking_minutes := None\<rparr>"
  by (simp add: find_relevant_chunks_node_def find_relevant_chunks_try_def
      extract_cooking_time_node_def extract_cooking_time_try_def attr_def
      none_has_no_attribute_def)

theorem absent_embedded_chunks_handled_witness:
  "embedded_chunks (initial_state recipe_url :: real workflow_state) = None \<and>
   error (find_relevant_chunks_node offline (initial_state recipe_url :: real workflow_state))
     = Some (CHR 0x27 # ''NoneType'' @ [CHR 0x27] @ '' object has no attribute ''
             @ CHR 0x27 # ''text_segments'' @ [CHR 0x27]) \<and>
   recipe_relevant_segments
     (find_relevant_chunks_node offline (initial_state recipe_url :: real workflow_state)) = None \<and>
   total_cooking_minutes
     (extract_cooking_time_node offline (initial_state recipe_url :: real workflow_state)) = None"
  using absent_embedded_chunks_handled
    [of "initial_state recipe_url :: real workflow_state" offline]
  by (simp add: initial_state_def squote_def)

theorem absent_embedded_chunks_no_empty_list:
  "embedded_chunks (initial_state recipe_url :: real workflow_state) = None \<and>
   recipe_relevant_segments
     (find_relevant_chunks_node offline (initial_state recipe_url :: real workflow_state))
     \<noteq> Some []"
  by (simp add: initial_state_def find_relevant_chunks_node_def find_relevant_chunks_try_def
      attr_def)

text \<open>
  C10 (as the code has it): when the similarity search raises,
  \<open>perform_rag_search\<close> does not raise: it returns \<^verbatim>\<open>documents[:max_results]\<close>.
  For \<open>max_results\<close> of 0 or more that is the first \<open>max_results\<close> input documents
  in their input order; for a negative \<open>max_results\<close> it is the input documents but
  the last \<open>-max_results\<close>, in their input order. The list is empty exactly when
  there are no documents, or \<open>max_results\<close> is 0, or \<open>max_results\<close> is negative and
  there are at most \<open>-max_results\<close> documents; the claim's "does not return an empty
  list" does not hold for an empty segment list.
\<close>

theorem rag_search_fallback:
  "create_embedding_model env = Inr m \<Longrightarrow>
   chroma_from_documents env documents m = Inr vs \<Longrightarrow>
   similarity_search env vs query max_results = Inl e \<Longrightarrow>
     perform_rag_search env documents query max_results = slice_to max_results documents \<and>
     (0 \<le> max_results \<longrightarrow>
        perform_rag_search env documents query max_results
          = take (nat max_results) documents) \<and>
     (max_results < 0 \<longrightarrow>
        perform_rag_search env documents query max_results
          = take (length documents - nat (- max_results)) documents) \<and>
     (perform_rag_search env documents query max_results = []
        \<longleftrightarrow> documents = [] \<or> max_results = 0
            \<or> (max_results < 0 \<and> int (length documents) \<le> - max_results))"
proof -
  assume m: "create_embedding_model env = Inr m"
    and vs: "chroma_from_documents env documents m = Inr vs"
    and e: "similarity_search env vs query max_results = Inl e"
  have fallback: "perform_rag_search env documents query max_results
      = slice_to max_results documents"
    using m vs e by (simp add: perform_rag_search_def rag_search_try_def)
  have neg: "max_results < 0 \<Longrightarrow>
      nat (int (length documents) + max_results) = length documents - nat (- max_results)"
    by linarith
  show ?thesis
    unfolding fallback
    using neg by (auto simp: slice_to_def)
qed

theorem rag_search_fallback_witness:
  "similarity_search search_down
     (Chroma [\<lparr>page_content = ''a''\<rparr>, \<lparr>page_content = ''b''\<rparr>, \<lparr>page_content = ''c''\<rparr>,
              \<lparr>page_content = ''d''\<rparr>]) ''time'' 3 = Inl (Exn OtherException ''offline'') \<and>
   perform_rag_search search_down
     [\<lparr>page_content = ''a''\<rparr>, \<lparr>page_content = ''b''\<rparr>, \<lparr>page_content = ''c''\<rparr>,
      \<lparr>page_content = ''d''\<rparr>] ''time'' 3
   = [\<lparr>page_content = ''a''\<rparr>, \<lparr>page_content = ''b''\<rparr>, \<lparr>page_content = ''c''\<rparr>] \<and>
   perform_rag_search search_down
     [\<lparr>page_content = ''a''\<rparr>, \<lparr>page_content = ''b''\<rparr>, \<lparr>page_content = ''c''\<rparr>,
      \<lparr>page_content = ''d''\<rparr>] ''time'' (- 1)
   = [\<lparr>page_content = ''a''\<rparr>, \<lparr>page_content = ''b''\<rparr>, \<lparr>page_content = ''c''\<rparr>] \<and>
   perform_rag_search search_down
     [\<lparr>page_content = ''a''\<rparr>, \<lparr>page_content = ''b''\<rparr>, \<lparr>page_content = ''c''\<rparr>,
      \<lparr>page_content = ''d''\<rparr>] ''time'' (- 7)
   = []"
  using
    rag_search_fallback
      [of search_down "OpenAIEmbeddings ''text-embedding-ada-002''"
        "[\<lparr>page_content = ''a''\<rparr>, \<lparr>page_content = ''b''\<rparr>, \<lparr>page_content = ''c''\<rparr>,
          \<lparr>page_content = ''d''\<rparr>]"
        "Chroma [\<lparr>page_content = ''a''\<rparr>, \<lparr>page_content = ''b''\<rparr>, \<lparr>page_content = ''c''\<rparr>,
                 \<lparr>page_content = ''d''\<rparr>]"
        "''time''" 3 "Exn OtherException ''offline''"]
    rag_search_fallback
      [of search_down "OpenAIEmbeddings ''text-embedding-ada-002''"
        "[\<lparr>page_content = ''a''\<rparr>, \<lparr>page_content = ''b''\<rparr>, \<lparr>page_content = ''c''\<rparr>,
          \<lparr>page_content = ''d''\<rparr>]"
        "Chroma [\<lparr>page_content = ''a''\<rparr>, \<lparr>page_content = ''b''\<rparr>, \<lparr>page_content = ''c''\<rparr>,
                 \<lparr>page_content = ''d''\<rparr>]"
        "''time''" "- 1" "Exn OtherException ''offline''"]
    rag_search_fallback
      [of search_down "OpenAIEmbeddings ''text-embedding-ada-002''"
        "[\<lparr>page_content = ''a''\<rparr>, \<lparr>page_content = ''b''\<rparr>, \<lparr>page_content = ''c''\<rparr>,
          \<lparr>page_content = ''d''\<rparr>]"
        "Chroma [\<lparr>page_content = ''a''\<rparr>, \<lparr>page_content = ''b''\<rparr>, \<lparr>page_content = ''c''\<rparr>,
                 \<lparr>page_content = ''d''\<rparr>]"
        "''time''" "- 7" "Exn OtherException ''offline''"]
  by (simp add: search_down_def offline_def create_embedding_model_def slice_to_def)

theorem rag_search_fallback_empty:
  "similarity_search search_down (Chroma []) ''time'' 3 = Inl (Exn OtherException ''offline'') \<and>
   perform_rag_search search_down [] ''time'' 3 = []"
  by (simp add: search_down_def offline_def perform_rag_search_def rag_search_try_def
      slice_to_def create_embedding_model_def)

section \<open>The validate node\<close>

text \<open>
  C6: when the download raises, or the chat model cannot be made, or the validation
  chain (prompt, model and parser) raises, the validate node does not raise: it
  returns the input state with \<open>validation_result\<close> set to a result whose \<open>is_recipe\<close>
  is true and whose \<open>reason\<close> is not empty, so the classifier that follows returns
  "continue".
\<close>

theorem validate_node_fails_open:
  "download_pdf_sync env (pdf_url state) = Inl e
   \<or> create_chat_model env = Inl e
   \<or> (\<exists>bs m. download_pdf_sync env (pdf_url state) = Inr bs \<and>
             create_chat_model env = Inr m \<and>
             validation_chain env m (filename_of (pdf_url state)) bs = Inl e) \<Longrightarrow>
   \<exists>vr. validate_recipe_pdf_node env state = state\<lparr>validation_result := Some vr\<rparr> \<and>
        is_recipe vr \<and> reason vr \<noteq> [] \<and>
        should_continue_processing (validate_recipe_pdf_node env state) = ''continue''"
  by (auto simp: validate_recipe_pdf_node_def validate_recipe_pdf_try_def Let_def utf8_def
       should_continue_processing_def split: sum.splits)

theorem validate_node_fails_open_witness:
  "download_pdf_sync (offline :: real collaborators)
     (pdf_url (initial_state recipe_url :: real workflow_state))
     = Inl (Exn OtherException
         (utf8 [80, 68, 70, 227, 131, 128, 227, 130, 166, 227, 131, 179, 227, 131, 173,
                227, 131, 188, 227, 131, 137, 227, 130, 168, 227, 131, 169, 227, 131, 188,
                58, 32] @ ''offline'')) \<and>
   (\<exists>vr. validate_recipe_pdf_node offline (initial_state recipe_url :: real workflow_state)
           = (initial_state recipe_url)\<lparr>validation_result := Some vr\<rparr> \<and>
         is_recipe vr \<and> reason vr \<noteq> [] \<and>
         should_continue_processing
           (validate_recipe_pdf_node offline (initial_state recipe_url :: real workflow_state))
           = ''continue'')"
proof -
  have h: "download_pdf_sync (offline :: real collaborators)
      (pdf_url (initial_state recipe_url :: real workflow_state))
     = Inl (Exn OtherException
         (utf8 [80, 68, 70, 227, 131, 128, 227, 130, 166, 227, 131, 179, 227, 131, 173,
                227, 131, 188, 227, 131, 137, 227, 130, 168, 227, 131, 169, 227, 131, 188,
                58, 32] @ ''offline''))"
    by (simp add: download_pdf_sync_def offline_def)
  show ?thesis
    using h validate_node_fails_open
      [of offline "initial_state recipe_url :: real workflow_state", OF disjI1, OF h]
    by simp
qed

section \<open>Entity extraction with retry\<close>

lemma with_retry_value:
  "chain n = Inr v \<Longrightarrow> with_retry retry_if k chain n = (Inr v, n)"
  by (subst with_retry.simps) simp

lemma with_retry_last:
  "\<not> n < k \<Longrightarrow> with_retry retry_if k chain n = (chain n, n)"
  by (subst with_retry.simps) (simp split: sum.splits)

lemma with_retry_no_retry:
  "chain n = Inl e \<Longrightarrow> \<not> retry_if e \<Longrightarrow> with_retry retry_if k chain n = (Inl e, n)"
  by (subst with_retry.simps) simp

lemma with_retry_again:
  "chain n = Inl e \<Longrightarrow> retry_if e \<Longrightarrow> n < k \<Longrightarrow>
   with_retry retry_if k chain n = with_retry retry_if k chain (Suc n)"
  by (subst with_retry.simps) simp

lemma two_attempts:
  "recipe_chain_with_retry env m c =
     (case recipe_chain env m c 1 of
        Inr recipe \<Rightarrow> (Inr recipe, 1)
      | Inl e \<Rightarrow>
          if kind e = OutputParserException then (recipe_chain env m c 2, 2)
          else (Inl e, 1))"
proof (cases "recipe_chain env m c 1")
  case (Inr recipe)
  then show ?thesis
    by (simp add: recipe_chain_with_retry_def with_retry_value)
next
  case first: (Inl e)
  show ?thesis
  proof (cases "kind e = OutputParserException")
    case False
    from first False
    have "with_retry (\<lambda>e. kind e = OutputParserException) 2 (recipe_chain env m c) 1
        = (Inl e, 1)"
      by (rule with_retry_no_retry)
    then show ?thesis using first False
      by (simp add: recipe_chain_with_retry_def)
  next
    case True
    have "with_retry (\<lambda>e. kind e = OutputParserException) 2 (recipe_chain env m c) 1
        = with_retry (\<lambda>e. kind e = OutputParserException) 2 (recipe_chain env m c) (Suc 1)"
      using first True by (intro with_retry_again [where e = e]) simp_all
    also have "\<dots> = with_retry (\<lambda>e. kind e = OutputParserException) 2 (recipe_chain env m c) 2"
      by (simp only: Suc_1)
    also have "\<dots> = (recipe_chain env m c 2, 2)"
      by (rule with_retry_last) simp
    finally show ?thesis using first True
      by (simp add: recipe_chain_with_retry_def)
  qed
qed

text \<open>
  C8: when the chat model cannot be made the result is \<open>None\<close>. Otherwise the
  extraction chain is invoked at most twice. A first attempt that returns a recipe
  is not repeated; a first attempt that raises anything but an
  \<open>OutputParserException\<close> is not repeated and the result is \<open>None\<close>; after a first
  attempt that raises an \<open>OutputParserException\<close> a valid second attempt gives that
  recipe, and a second attempt that raises gives \<open>None\<close>. A recipe that is returned
  is always the whole value that the first or the second attempt returned. The node
  stores the result in \<open>extracted_recipe\<close>, and stores \<open>None\<close> without calling the
  extractor when there are no relevant segments.
\<close>

theorem entity_extraction_retry:
  "(\<forall>e. create_chat_model env = Inl e \<longrightarrow>
      generate_answer_with_agent env segments = None) \<and>
   (\<forall>m outcome attempts.
      create_chat_model env = Inr m \<and>
      recipe_chain_with_retry env m (context_of segments) = (outcome, attempts) \<longrightarrow>
        1 \<le> attempts \<and> attempts \<le> 2 \<and>
        generate_answer_with_agent env segments
          = (case outcome of Inr recipe \<Rightarrow> Some recipe | Inl e \<Rightarrow> None) \<and>
        (\<forall>recipe. recipe_chain env m (context_of segments) 1 = Inr recipe \<longrightarrow>
           attempts = 1 \<and> outcome = Inr recipe) \<and>
        (\<forall>e. recipe_chain env m (context_of segments) 1 = Inl e \<and>
             kind e \<noteq> OutputParserException \<longrightarrow>
           attempts = 1 \<and> outcome = Inl e) \<and>
        (\<forall>e recipe. recipe_chain env m (context_of segments) 1 = Inl e \<and>
             kind e = OutputParserException \<and>
             recipe_chain env m (context_of segments) 2 = Inr recipe \<longrightarrow>
           attempts = 2 \<and> outcome = Inr recipe) \<and>
        (\<forall>e e'. recipe_chain env m (context_of segments) 1 = Inl e \<and>
             kind e = OutputParserException \<and>
             recipe_chain env m (context_of segments) 2 = Inl e' \<longrightarrow>
           attempts = 2 \<and> outcome = Inl e') \<and>
        (\<forall>recipe. generate_answer_with_agent env segments = Some recipe \<longrightarrow>
           recipe_chain env m (context_of segments) attempts = Inr recipe)) \<and>
   (\<forall>recipe. generate_answer_with_agent env segments = Some recipe \<longrightarrow>
      (\<exists>m i. create_chat_model env = Inr m \<and> 1 \<le> i \<and> i \<le> 2 \<and>
             recipe_chain env m (context_of segments) i = Inr recipe)) \<and>
   (recipe_relevant_segments state = Some segments \<and> segments \<noteq> [] \<longrightarrow>
      extract_recipe_entity_node env state
        = state\<lparr>extracted_recipe := generate_answer_with_agent env segments\<rparr>) \<and>
   ((recipe_relevant_segments state = None \<or> recipe_relevant_segments state = Some []) \<longrightarrow>
      extract_recipe_entity_node env state = state\<lparr>extracted_recipe := None\<rparr>)"
proof -
  have no_model: "generate_answer_with_agent env segments = None"
    if "create_chat_model env = Inl e" for e
    using that by (simp add: generate_answer_with_agent_def)
  have node: "extract_recipe_entity_node env state
          = state\<lparr>extracted_recipe := generate_answer_with_agent env segments\<rparr>"
    if "recipe_relevant_segments state = Some segments \<and> segments \<noteq> []"
    using that by (cases segments) (simp_all add: extract_recipe_entity_node_def)
  have skip: "extract_recipe_entity_node env state = state\<lparr>extracted_recipe := None\<rparr>"
    if "recipe_relevant_segments state = None \<or> recipe_relevant_segments state = Some []"
    using that by (auto simp: extract_recipe_entity_node_def)
  have retry: "1 \<le> attempts \<and> attempts \<le> 2 \<and>
        generate_answer_with_agent env segments
          = (case outcome of Inr recipe \<Rightarrow> Some recipe | Inl e \<Rightarrow> None) \<and>
        (\<forall>recipe. recipe_chain env m (context_of segments) 1 = Inr recipe \<longrightarrow>
           attempts = 1 \<and> outcome = Inr recipe) \<and>
        (\<forall>e. recipe_chain env m (context_of segments) 1 = Inl e \<and>
             kind e \<noteq> OutputParserException \<longrightarrow>
           attempts = 1 \<and> outcome = Inl e) \<and>
        (\<forall>e recipe. recipe_chain env m (context_of segments) 1 = Inl e \<and>
             kind e = OutputParserException \<and>
             recipe_chain env m (context_of segments) 2 = Inr recipe \<longrightarrow>
           attempts = 2 \<and> outcome = Inr recipe) \<and>
        (\<forall>e e'. recipe_chain env m (context_of segments) 1 = Inl e \<and>
             kind e = OutputParserException \<and>
             recipe_chain env m (context_of segments) 2 = Inl e' \<longrightarrow>
           attempts = 2 \<and> outcome = Inl e') \<and>
        (\<forall>recipe. generate_answer_with_agent env segments = Some recipe \<longrightarrow>
           recipe_chain env m (context_of segments) attempts = Inr recipe)"
    if m: "create_chat_model env = Inr m"
      and r: "recipe_chain_with_retry env m (context_of segments) = (outcome, attempts)"
    for m outcome attempts
  proof -
    have gen: "generate_answer_with_agent env segments
         = (case outcome of Inr recipe \<Rightarrow> Some recipe | Inl e \<Rightarrow> None)"
      using m r by (simp add: generate_answer_with_agent_def)
    from r have "(outcome, attempts) =
       (case recipe_chain env m (context_of segments) 1 of
          Inr recipe \<Rightarrow> (Inr recipe, 1)
        | Inl e \<Rightarrow>
            if kind e = OutputParserException
            then (recipe_chain env m (context_of segments) 2, 2)
            else (Inl e, 1))"
      by (simp add: two_attempts)
    then show ?thesis
      using gen by (auto split: sum.splits if_splits)
  qed
  have whole: "\<exists>m i. create_chat_model env = Inr m \<and> 1 \<le> i \<and> i \<le> 2 \<and>
             recipe_chain env m (context_of segments) i = Inr recipe"
    if some: "generate_answer_with_agent env segments = Some recipe" for recipe
  proof (cases "create_chat_model env")
    case (Inl e)
    then show ?thesis using some no_model by simp
  next
    case (Inr m)
    obtain outcome attempts where
      r: "recipe_chain_with_retry env m (context_of segments) = (outcome, attempts)"
      by (cases "recipe_chain_with_retry env m (context_of segments)")
    from retry [OF Inr r] some
    have "1 \<le> attempts" "attempts \<le> 2"
      "recipe_chain env m (context_of segments) attempts = Inr recipe"
      by blast+
    then show ?thesis using Inr by blast
  qed
  show ?thesis
    using no_model retry whole node skip by blast
qed

theorem entity_extraction_retry_witness:
  "create_chat_model second_attempt_valid = Inr (ChatOpenAI ''gpt-4o'') \<and>
   recipe_chain_with_retry second_attempt_valid (ChatOpenAI ''gpt-4o'') (context_of curry_segments)
     = (Inr curry, 2) \<and>
   extracted_recipe
     (extract_recipe_entity_node second_attempt_valid
        ((initial_state recipe_url)\<lparr>recipe_relevant_segments := Some curry_segments\<rparr>))
     = Some curry \<and>
   recipe_chain_with_retry never_valid (ChatOpenAI ''gpt-4o'') (context_of curry_segments)
     = (Inl (Exn OutputParserException ''invalid json''), 2) \<and>
   extracted_recipe
     (extract_recipe_entity_node never_valid
        ((initial_state recipe_url)\<lparr>recipe_relevant_segments := Some curry_segments\<rparr>))
     = None \<and>
   create_chat_model no_chat_model = Inl (Exn OtherException ''offline'') \<and>
   extracted_recipe
     (extract_recipe_entity_node no_chat_model
        ((initial_state recipe_url)\<lparr>recipe_relevant_segments := Some curry_segments\<rparr>))
     = None"
proof -
  have m1: "create_chat_model second_attempt_valid = Inr (ChatOpenAI ''gpt-4o'')"
    by (simp add: create_chat_model_def second_attempt_valid_def)
  have m2: "create_chat_model never_valid = Inr (ChatOpenAI ''gpt-4o'')"
    by (simp add: create_chat_model_def never_valid_def)
  have m3: "create_chat_model no_chat_model = Inl (Exn OtherException ''offline'')"
    by (simp add: create_chat_model_def no_chat_model_def offline_def)
  have r1: "recipe_chain_with_retry second_attempt_valid (ChatOpenAI ''gpt-4o'')
      (context_of curry_segments) = (Inr curry, 2)"
    by (simp add: two_attempts second_attempt_valid_def)
  have r2: "recipe_chain_with_retry never_valid (ChatOpenAI ''gpt-4o'')
      (context_of curry_segments) = (Inl (Exn OutputParserException ''invalid json''), 2)"
    by (simp add: two_attempts never_valid_def)
  show ?thesis
    using m1 r1 m2 r2 m3
      entity_extraction_retry
        [of second_attempt_valid curry_segments
            "(initial_state recipe_url)\<lparr>recipe_relevant_segments := Some curry_segments\<rparr>"]
      entity_extraction_retry
        [of never_valid curry_segments
            "(initial_state recipe_url)\<lparr>recipe_relevant_segments := Some curry_segments\<rparr>"]
      entity_extraction_retry
        [of no_chat_model curry_segments
            "(initial_state recipe_url)\<lparr>recipe_relevant_segments := Some curry_segments\<rparr>"]
    by (simp add: curry_segments_def)
qed

section \<open>Runs of the graph\<close>

lemma next_target_total: "next_target n s \<noteq> Inl e"
  by (cases n)
     (simp_all add: next_target_def path_map_def should_continue_processing_def
        split: option.splits)

lemma next_target_END:
  "next_target n s = Inr END \<longleftrightarrow> n = create_final_result \<or> n = not_recipe_finish"
  by (cases n)
     (simp_all add: next_target_def path_map_def should_continue_processing_def
        split: option.splits)

lemma final_result_kept:
  "n \<noteq> create_final_result \<Longrightarrow> n \<noteq> not_recipe_finish \<Longrightarrow>
   final_result (node_function env n s) = final_result s"
proof (cases n)
  case validate_recipe_pdf
  then show ?thesis
    by (simp add: validate_recipe_pdf_node_def validate_recipe_pdf_try_def Let_def
        split: sum.splits)
next
  case download_extract_pdf
  then show ?thesis
    by (simp add: download_extract_pdf_node_def download_extract_pdf_try_def
        split: sum.splits)
next
  case split_chunks
  then show ?thesis
    by (simp add: split_chunks_node_def split_chunks_try_def split: sum.splits)
next
  case create_embeddings
  then show ?thesis
    by (simp add: create_embeddings_node_def create_embeddings_try_def Let_def
        split: sum.splits)
next
  case find_relevant_chunks
  then show ?thesis
    by (simp add: find_relevant_chunks_node_def find_relevant_chunks_try_def Let_def
        split: sum.splits)
next
  case extract_recipe_entity
  then show ?thesis
    by (simp add: extract_recipe_entity_node_def split: option.splits list.splits)
next
  case extract_cooking_time
  then show ?thesis
    by (simp add: extract_cooking_time_node_def extract_cooking_time_try_def Let_def
        split: sum.splits if_splits)
qed simp_all

lemma final_result_set:
  "n = create_final_result \<or> n = not_recipe_finish \<Longrightarrow>
   final_result (node_function env n s) \<noteq> None"
  by (auto simp: create_final_result_node_def not_recipe_finish_node_def Let_def)

lemma run_from_shape:
  "\<exists>pre t final. run_from env n state = Inr (pre @ [(t, final)]) \<and>
     (t = create_final_result \<or> t = not_recipe_finish) \<and>
     (\<forall>(k, s) \<in> set pre. k \<noteq> create_final_result \<and> k \<noteq> not_recipe_finish \<and>
        final_result s = final_result state) \<and>
     final_result final \<noteq> None \<and>
     (pre = [] \<longleftrightarrow> n = create_final_result \<or> n = not_recipe_finish)"
proof (induction env n state rule: run_from.induct)
  case (1 env n state)
  let ?s = "node_function env n state"
  show ?case
  proof (cases "next_target n ?s")
    case (Inl e)
    then show ?thesis using next_target_total by blast
  next
    case (Inr t)
    show ?thesis
    proof (cases t)
      case END
      then have terminal: "n = create_final_result \<or> n = not_recipe_finish"
        using Inr next_target_END by blast
      have "run_from env n state = Inr ([] @ [(n, ?s)])"
        using Inr END by (subst run_from.simps) simp
      then show ?thesis using terminal final_result_set [OF terminal] by fastforce
    next
      case (To m)
      then have nonterm: "n \<noteq> create_final_result" "n \<noteq> not_recipe_finish"
        using Inr next_target_END [of n ?s] by auto
      have kept: "final_result ?s = final_result state"
        using nonterm by (rule final_result_kept)
      from "1.IH" [OF Inr To] obtain pre t' final where
        run: "run_from env m ?s = Inr (pre @ [(t', final)])" and
        t': "t' = create_final_result \<or> t' = not_recipe_finish" and
        pre: "\<forall>(k, s) \<in> set pre. k \<noteq> create_final_result \<and> k \<noteq> not_recipe_finish \<and>
          final_result s = final_result ?s" and
        fin: "final_result final \<noteq> None"
        by blast
      have "run_from env n state = Inr (((n, ?s) # pre) @ [(t', final)])"
        using Inr To run by (subst run_from.simps) simp
      moreover have "\<forall>(k, s) \<in> set ((n, ?s) # pre).
          k \<noteq> create_final_result \<and> k \<noteq> not_recipe_finish \<and>
          final_result s = final_result state"
        using pre kept nonterm by auto
      ultimately show ?thesis using t' fin nonterm by blast
    qed
  qed
qed

text \<open>
  C9: every run of the graph from its entry point ends, and its log is a non-empty
  sequence of nodes that are not terminal followed by exactly one terminal node,
  \<open>create_final_result\<close> or \<open>not_recipe_finish\<close>. Every node before the terminal one
  leaves \<open>final_result\<close> as the initial state had it; the terminal node sets it.
\<close>

theorem one_terminal_node_per_run:
  "\<exists>pre t final. run_from env entry_point state = Inr (pre @ [(t, final)]) \<and>
     (t = create_final_result \<or> t = not_recipe_finish) \<and>
     pre \<noteq> [] \<and>
     (\<forall>(n, s) \<in> set pre. n \<noteq> create_final_result \<and> n \<noteq> not_recipe_finish \<and>
        final_result s = final_result state) \<and>
     final_result final \<noteq> None"
  using run_from_shape [of env entry_point state]
  by (auto simp: entry_point_def)

theorem one_terminal_node_per_run_witness:
  "map fst (case run_from offline entry_point (initial_state recipe_url) of
              Inr trace \<Rightarrow> trace | Inl e \<Rightarrow> [])
     = [validate_recipe_pdf, download_extract_pdf, split_chunks, create_embeddings,
        find_relevant_chunks, extract_recipe_entity, extract_cooking_time,
        create_final_result] \<and>
   map (\<lambda>(n, s). final_result s)
     (case run_from (offline :: real collaborators) entry_point (initial_state recipe_url) of
        Inr trace \<Rightarrow> trace | Inl e \<Rightarrow> [])
     = [None, None, None, None, None, None, None,
        Some \<lparr>res_extracted_recipe = None, res_total_cooking_minutes = None\<rparr>] \<and>
   map (\<lambda>(n, s). (n, final_result s))
     (case run_from rejecting entry_point (initial_state recipe_url) of
        Inr trace \<Rightarrow> trace | Inl e \<Rightarrow> [])
     = [(validate_recipe_pdf, None),
        (not_recipe_finish,
         Some \<lparr>res_extracted_recipe = None, res_total_cooking_minutes = None\<rparr>)]"
  using one_terminal_node_per_run [of "offline :: real collaborators" "initial_state recipe_url"]
    one_terminal_node_per_run [of rejecting "initial_state recipe_url"]
  by (simp add: entry_point_def
      run_from.simps [of _ validate_recipe_pdf] run_from.simps [of _ download_extract_pdf]
      run_from.simps [of _ split_chunks] run_from.simps [of _ create_embeddings]
      run_from.simps [of _ find_relevant_chunks] run_from.simps [of _ extract_recipe_entity]
      run_from.simps [of _ extract_cooking_time] run_from.simps [of _ create_final_result]
      run_from.simps [of _ not_recipe_finish]
      next_target_def path_map_def should_continue_processing_def
      validate_recipe_pdf_node_def validate_recipe_pdf_try_def download_pdf_sync_def
      create_chat_model_def not_recipe_finish_node_def
      download_extract_pdf_node_def download_extract_pdf_try_def
      split_chunks_node_def split_chunks_try_def attr_def
      create_embeddings_node_def create_embeddings_try_def
      find_relevant_chunks_node_def find_relevant_chunks_try_def
      extract_recipe_entity_node_def
      extract_cooking_time_node_def extract_cooking_time_try_def
      create_final_result_node_def RecipeExtractionResult_def
      offline_def rejecting_def initial_state_def Let_def)

section \<open>The classifier on an absent validation result\<close>

lemma validate_node_stores_result:
  "validation_result (validate_recipe_pdf_node env state) \<noteq> None"
  by (simp add: validate_recipe_pdf_node_def validate_recipe_pdf_try_def Let_def
      split: sum.splits)

lemma run_from_log_states:
  "run_from env n state = Inr trace \<Longrightarrow>
   \<forall>(k, s) \<in> set trace. \<exists>before. s = node_function env k before"
proof (induction env n state arbitrary: trace rule: run_from.induct)
  case (1 env n state)
  let ?s = "node_function env n state"
  show ?case
  proof (cases "next_target n ?s")
    case (Inl e)
    then show ?thesis using "1.prems" by (subst (asm) run_from.simps) simp
  next
    case (Inr t)
    show ?thesis
    proof (cases t)
      case END
      then have "trace = [(n, ?s)]"
        using Inr "1.prems" by (subst (asm) run_from.simps) simp
      then show ?thesis by auto
    next
      case (To m)
      show ?thesis
      proof (cases "run_from env m ?s")
        case (Inl e)
        then show ?thesis using Inr To "1.prems" by (subst (asm) run_from.simps) simp
      next
        case rest: (Inr rest)
        then have "trace = (n, ?s) # rest"
          using Inr To "1.prems" by (subst (asm) run_from.simps) simp
        moreover have "\<forall>(k, s) \<in> set rest. \<exists>before. s = node_function env k before"
          using "1.IH" [OF Inr To rest] .
        ultimately show ?thesis by auto
      qed
    qed
  qed
qed

lemma run_from_head:
  "run_from env n state = Inr trace \<Longrightarrow>
   \<exists>rest. trace = (n, node_function env n state) # rest"
proof -
  assume run: "run_from env n state = Inr trace"
  let ?s = "node_function env n state"
  show ?thesis
  proof (cases "next_target n ?s")
    case (Inl e)
    then show ?thesis using run by (subst (asm) run_from.simps) auto
  next
    case (Inr t)
    show ?thesis
    proof (cases t)
      case END
      then show ?thesis using Inr run by (subst (asm) run_from.simps) auto
    next
      case (To m)
      show ?thesis
      proof (cases "run_from env m ?s")
        case (Inl e)
        then show ?thesis using Inr To run by (subst (asm) run_from.simps) auto
      next
        case rest: (Inr rest)
        then show ?thesis using Inr To run by (subst (asm) run_from.simps) auto
      qed
    qed
  qed
qed

text \<open>
  C1 (as the code has it): when \<open>validation_result\<close> is absent, the classifier
  returns "stop" and the engine goes to \<open>not_recipe_finish\<close>; it does not return
  "continue". The validate node stores a \<open>validation_result\<close> whatever the
  collaborators do and whatever the input state is. Every run of the graph starts
  with the validate node, and every state that the validate node returns in a run
  has a \<open>validation_result\<close>.
\<close>

theorem absent_validation_result_stops:
  "(validation_result state = None \<longrightarrow>
      should_continue_processing state = ''stop'' \<and>
      next_target validate_recipe_pdf state = Inr (To not_recipe_finish)) \<and>
   validation_result (validate_recipe_pdf_node env state') \<noteq> None \<and>
   (\<exists>rest. run_from env entry_point state'
        = Inr ((validate_recipe_pdf, validate_recipe_pdf_node env state') # rest) \<and>
      (\<forall>(n, s) \<in> set ((validate_recipe_pdf, validate_recipe_pdf_node env state') # rest).
         n = validate_recipe_pdf \<longrightarrow> validation_result s \<noteq> None))"
proof (intro conjI impI)
  assume "validation_result state = None"
  then show "should_continue_processing state = ''stop''"
    and "next_target validate_recipe_pdf state = Inr (To not_recipe_finish)"
    by (simp_all add: should_continue_processing_def next_target_def path_map_def)
next
  show "validation_result (validate_recipe_pdf_node env state') \<noteq> None"
    by (rule validate_node_stores_result)
next
  obtain pre t final where
    "run_from env entry_point state' = Inr (pre @ [(t, final)])"
    using run_from_shape [of env entry_point state'] by blast
  then obtain rest where run: "run_from env entry_point state'
      = Inr ((validate_recipe_pdf, validate_recipe_pdf_node env state') # rest)"
    using run_from_head [of env entry_point state'] by (auto simp: entry_point_def)
  have "\<forall>(n, s) \<in> set ((validate_recipe_pdf, validate_recipe_pdf_node env state') # rest).
      \<exists>before. s = node_function env n before"
    using run_from_log_states [OF run] .
  then have "\<forall>(n, s) \<in> set ((validate_recipe_pdf, validate_recipe_pdf_node env state') # rest).
      n = validate_recipe_pdf \<longrightarrow> validation_result s \<noteq> None"
    using validate_node_stores_result by fastforce
  with run show "\<exists>rest. run_from env entry_point state'
        = Inr ((validate_recipe_pdf, validate_recipe_pdf_node env state') # rest) \<and>
      (\<forall>(n, s) \<in> set ((validate_recipe_pdf, validate_recipe_pdf_node env state') # rest).
         n = validate_recipe_pdf \<longrightarrow> validation_result s \<noteq> None)"
    by blast
qed

theorem absent_validation_result_stops_witness:
  "validation_result (initial_state recipe_url :: real workflow_state) = None \<and>
   should_continue_processing (initial_state recipe_url :: real workflow_state) = ''stop'' \<and>
   next_target validate_recipe_pdf (initial_state recipe_url :: real workflow_state)
     = Inr (To not_recipe_finish) \<and>
   validation_result
     (validate_recipe_pdf_node rejecting (initial_state recipe_url))
     = Some \<lparr>is_recipe = False, reason = ''an invoice''\<rparr> \<and>
   map (\<lambda>(n, s). (n, validation_result s))
     (case run_from rejecting entry_point (initial_state recipe_url) of
        Inr trace \<Rightarrow> trace | Inl e \<Rightarrow> [])
     = [(validate_recipe_pdf, Some \<lparr>is_recipe = False, reason = ''an invoice''\<rparr>),
        (not_recipe_finish, Some \<lparr>is_recipe = False, reason = ''an invoice''\<rparr>)]"
  using absent_validation_result_stops
    [of "initial_state recipe_url :: real workflow_state" rejecting "initial_state recipe_url"]
  by (simp add: entry_point_def
      run_from.simps [of _ validate_recipe_pdf] run_from.simps [of _ not_recipe_finish]
      next_target_def path_map_def should_continue_processing_def
      validate_recipe_pdf_node_def validate_recipe_pdf_try_def download_pdf_sync_def
      create_chat_model_def not_recipe_finish_node_def
      offline_def rejecting_def initial_state_def Let_def)

theorem absent_validation_result_not_continue:
  "validation_result (initial_state recipe_url :: real workflow_state) = None \<and>
   should_continue_processing (initial_state recipe_url :: real workflow_state)
     \<noteq> ''continue''"
  by (simp add: initial_state_def should_continue_processing_def)

end
